theory Spec2Isabelle
  imports Main "HOL-Library.Word" "HOL-Library.Monad_Syntax"
begin

unbundle bit_operations_syntax

section \<open>CRT-571 card reader driver: shallow embedding\<close>

text \<open>
  The repository holds three source files of package \<open>crt571\<close>: \<open>crt571.go\<close> (functions
  \<open>Exchange\<close>, \<open>MakeRequest\<close>, \<open>Initialization\<close>, \<open>bccCalculate\<close>), and two files of
  unknown name, \<open>part_000\<close> (\<open>read\<close>, \<open>exchange\<close>, \<open>request\<close>, \<open>Command\<close>, \<open>bccCalc\<close>,
  \<open>bccCheck\<close>) and \<open>part_001\<close> (the same \<open>read\<close>, \<open>exchange\<close>, \<open>bccCalc\<close>, \<open>bccCheck\<close>, its
  own \<open>request\<close>, and \<open>Initialization\<close>, \<open>StatusRequest\<close>). Functions of \<open>part_001\<close> that
  differ from their namesake in \<open>part_000\<close> carry the suffix \<open>_001\<close>. Opening the port
  (\<open>InitCRT571Service\<close>, \<open>parseMode\<close>), the \<open>String\<close> method and the name tables of commands
  and parameters, which only the log lines read, are not part of the embedding.
\<close>

subsection \<open>Bytes and constants\<close>

type_synonym byte = "8 word"

definition CRT571_BUFFER_MAX_LENGTH :: nat where "CRT571_BUFFER_MAX_LENGTH = 1024"

definition CRT571_STX :: byte where "CRT571_STX = 0xf2"
definition CRT571_ETX :: byte where "CRT571_ETX = 0x03"
definition CRT571_CMT :: byte where "CRT571_CMT = 0x43"
definition CRT571_PMT :: byte where "CRT571_PMT = 0x50"
definition CRT571_EMT :: byte where "CRT571_EMT = 0x45"
definition CRT571_EMT2 :: byte where "CRT571_EMT2 = 0x4E"
definition CRT571_ACK :: byte where "CRT571_ACK = 0x06"
definition CRT571_NAK :: byte where "CRT571_NAK = 0x15"
definition CRT571_EOT :: byte where "CRT571_EOT = 0x04"

definition CRT571_CM_INITIALIZE :: byte where "CRT571_CM_INITIALIZE = 0x30"
definition CRT571_CM_STATUS_REQUEST :: byte where "CRT571_CM_STATUS_REQUEST = 0x31"


subsection \<open>Go values: panics, errors, slices\<close>

text \<open>
  A Go call returns or panics; the only panics in this code are the run-time errors of an
  index or slice expression out of range and of dereferencing a nil pointer.
\<close>

datatype 'a outcome = Panic | Ret 'a

text \<open>
  An \<^verbatim>\<open>error\<close> value is \<^verbatim>\<open>io.EOF\<close> or was made by \<^verbatim>\<open>errors.New(msg)\<close> (an error of
  the serial port is taken to be of the second kind). \<open>None\<close> of type \<open>error option\<close> is
  the nil error.
\<close>

datatype error = io_EOF | errors_New string

text \<open>
  \<^verbatim>\<open>buf[i]\<close> and \<^verbatim>\<open>buf[lo:hi]\<close>; \<open>None\<close> is the run-time panic. Every slice in this code
  has its capacity equal to its length (\<^verbatim>\<open>make([]byte, n)\<close>, or a suffix of one), so the
  upper bound of a slice expression is the length.
\<close>

definition index :: "byte list \<Rightarrow> int \<Rightarrow> byte option" where
  "index buf i = (if 0 \<le> i \<and> i < int (length buf) then Some (buf ! nat i) else None)"

definition subslice :: "byte list \<Rightarrow> int \<Rightarrow> int \<Rightarrow> byte list option" where
  "subslice buf lo hi =
     (if 0 \<le> lo \<and> lo \<le> hi \<and> hi \<le> int (length buf)
      then Some (take (nat (hi - lo)) (drop (nat lo) buf)) else None)"

definition outcome_of :: "'a option \<Rightarrow> 'a outcome" where
  "outcome_of x = (case x of None \<Rightarrow> Panic | Some y \<Rightarrow> Ret y)"

text \<open>\<^verbatim>\<open>string(b)\<close> of a byte slice: the same bytes, as characters.\<close>

definition string_of_bytes :: "byte list \<Rightarrow> string" where
  "string_of_bytes bs = map (\<lambda>b. char_of (unat b)) bs"

text \<open>
  \<^verbatim>\<open>binary.BigEndian.PutUint16(b, v)\<close> on a fresh two-byte slice
  (\<^verbatim>\<open>b[0] = byte(v >> 8); b[1] = byte(v)\<close>) and \<^verbatim>\<open>binary.BigEndian.Uint16(b)\<close>
  (\<^verbatim>\<open>_ = b[1]; return uint16(b[1]) | uint16(b[0])<<8\<close>).
\<close>

definition BigEndian_PutUint16 :: "16 word \<Rightarrow> byte list" where
  "BigEndian_PutUint16 v = [ucast (drop_bit 8 v), ucast v]"

definition BigEndian_Uint16 :: "byte list \<Rightarrow> 16 word option" where
  "BigEndian_Uint16 b = do {
     b1 \<leftarrow> index b 1;
     b0 \<leftarrow> index b 0;
     Some (ucast b1 OR push_bit 8 (ucast b0))
   }"

text \<open>
  \<^verbatim>\<open>fmt.Sprintf("%x", b)\<close> and \<^verbatim>\<open>fmt.Sprintf("% x", b)\<close> for a byte \<open>b\<close>: lower-case
  hexadecimal without leading zero; the space flag puts a blank where the sign would be.
\<close>

definition hex_digit :: "nat \<Rightarrow> char" where
  "hex_digit n = ''0123456789abcdef'' ! (n mod 16)"

definition sprintf_x :: "byte \<Rightarrow> string" where
  "sprintf_x b =
     (if unat b < 16 then [hex_digit (unat b)]
      else [hex_digit (unat b div 16), hex_digit (unat b mod 16)])"

definition sprintf_space_x :: "byte \<Rightarrow> string" where
  "sprintf_space_x b = CHR '' '' # sprintf_x b"

text \<open>A Go map read \<^verbatim>\<open>m[k]\<close> yields the zero value (here the empty string) for a missing key.\<close>

definition map_get :: "('k \<times> string) list \<Rightarrow> 'k \<Rightarrow> string" where
  "map_get m k = (case map_of m k of None \<Rightarrow> [] | Some v \<Rightarrow> v)"

subsection \<open>Tables\<close>

definition CRT571_ST0_NO_CARD :: byte where "CRT571_ST0_NO_CARD = 0x30"
definition CRT571_ST0_ONE_CARD_IN_GATE :: byte where "CRT571_ST0_ONE_CARD_IN_GATE = 0x31"
definition CRT571_ST0_ONE_CARD_ON_POSITION :: byte where "CRT571_ST0_ONE_CARD_ON_POSITION = 0x32"
definition CRT571_ST1_NO_CARD_IN_STACKER :: byte where "CRT571_ST1_NO_CARD_IN_STACKER = 0x30"
definition CRT571_ST1_FEW_CARD_IN_STACKER :: byte where "CRT571_ST1_FEW_CARD_IN_STACKER = 0x31"
definition CRT571_ST1_ENOUGH_CARDS_IN_BOX :: byte where "CRT571_ST1_ENOUGH_CARDS_IN_BOX = 0x32"
definition CRT571_ST2_ERROR_CARD_BIN_NOT_FULL :: byte where "CRT571_ST2_ERROR_CARD_BIN_NOT_FULL = 0x30"
definition CRT571_ST2_ERROR_CARD_BIN_FULL :: byte where "CRT571_ST2_ERROR_CARD_BIN_FULL = 0x31"

text \<open>\<open>CRT571CardStatus\<close> (\<open>part_000\<close> lines 158-173), a map of maps.\<close>

definition CRT571CardStatus :: "(string \<times> (byte \<times> string) list) list" where
  "CRT571CardStatus =
    [(''ST0'',
       [(CRT571_ST0_NO_CARD, ''No Card in CRT-571''),
        (CRT571_ST0_ONE_CARD_IN_GATE, ''One Card in gate''),
        (CRT571_ST0_ONE_CARD_ON_POSITION, ''One Card on RF/IC Card Position'')]),
     (''ST1'',
       [(CRT571_ST1_NO_CARD_IN_STACKER, ''No Card in stacker''),
        (CRT571_ST1_FEW_CARD_IN_STACKER, ''Few Card in stacker''),
        (CRT571_ST1_ENOUGH_CARDS_IN_BOX, ''Enough Cards in card box'')]),
     (''ST2'',
       [(CRT571_ST2_ERROR_CARD_BIN_NOT_FULL, ''Error card bin not full''),
        (CRT571_ST2_ERROR_CARD_BIN_FULL, ''Error card bin full'')])]"

definition CardStatus_get :: "string \<Rightarrow> byte \<Rightarrow> string" where
  "CardStatus_get field b =
     (case map_of CRT571CardStatus field of None \<Rightarrow> [] | Some m \<Rightarrow> map_get m b)"

text \<open>
  \<open>CRT571Errors\<close> (\<open>part_000\<close> lines 261-290); \<open>crt571_errors\<close> of \<open>part_001\<close>
  (lines 159-188) and \<open>crt571errors\<close> of \<open>crt571.go\<close> hold the same 28 entries.
\<close>

definition CRT571Errors :: "(string \<times> string) list" where
  "CRT571Errors =
    [(''00'', ''Reception of Undefined Command''),
     (''01'', ''Command Parameter Error''),
     (''02'', ''Command Sequence Error''),
     (''03'', ''Out of Hardware Support Command''),
     (''04'', ''Command Data Error''),
     (''05'', ''IC Card Contact Not Release''),
     (''10'', ''Card Jam''),
     (''12'', ''sensor error''),
     (''13'', ''Too Long-Card''),
     (''14'', ''Too Short-Card''),
     (''16'', ''Card move manually''),
     (''40'', ''Move card when recycling''),
     (''41'', ''Magnent of IC Card Error''),
     (''43'', ''Disable To Move Card To IC Card Position''),
     (''45'', ''Manually Move Card''),
     (''50'', ''Received Card Counter Overflow''),
     (''51'', ''Motor error''),
     (''60'', ''Short Circuit of IC Card Supply Power''),
     (''61'', ''Activiation of Card False''),
     (''62'', ''Command Out Of IC Card Support''),
     (''65'', ''Disablity of IC Card''),
     (''66'', ''Command Out Of IC Current Card Support''),
     (''67'', ''IC Card Transmittion Error''),
     (''68'', ''IC Card Transmittion Overtime''),
     (''69'', ''CPU/SAM Non-Compliance To EMV Standard''),
     (''A0'', ''Empty-Stacker''),
     (''A1'', ''Full-Stacker''),
     (''B0'', ''Not Reset'')]"

definition crt571_errors :: "(string \<times> string) list" where
  "crt571_errors = CRT571Errors"

subsection \<open>Checksum\<close>

text \<open>
  \<open>bccCalc\<close> (\<open>part_000\<close> lines 501-509, \<open>part_001\<close> lines 355-363): the loop
  \<^verbatim>\<open>for i := 0; i < n; i++ { bcc = bcc ^ a[i] }\<close> visits the bytes in index order; the
  accumulator is the second argument.
\<close>

fun bccCalc_loop :: "byte list \<Rightarrow> byte \<Rightarrow> byte" where
  "bccCalc_loop [] bcc = bcc"
| "bccCalc_loop (x # xs) bcc = bccCalc_loop xs (bcc XOR x)"

definition bccCalc :: "byte list \<Rightarrow> byte" where
  "bccCalc a = bccCalc_loop a 0"

text \<open>\<open>bccCheck\<close> (\<open>part_000\<close> lines 511-519): recompute and compare.\<close>

definition bccCheck :: "byte \<Rightarrow> byte list \<Rightarrow> bool" where
  "bccCheck bcc data = (let bcc2 = bccCalc data in if bcc = bcc2 then True else False)"

text \<open>\<open>bccCalculate\<close> (\<open>crt571.go\<close> lines 260-262): the body is \<^verbatim>\<open>return 0x99\<close>.\<close>

definition bccCalculate :: "byte list \<Rightarrow> byte" where
  "bccCalculate data = 0x99"

subsection \<open>The service and its serial port\<close>

text \<open>
  The serial port (\<^verbatim>\<open>*rs232.SerialPort\<close>, an external library) is a script: what each
  successive \<^verbatim>\<open>Read\<close> call yields and which error each successive \<^verbatim>\<open>Write\<close> call
  returns. A \<^verbatim>\<open>Read\<close> with no scripted result left reports \<^verbatim>\<open>io.EOF\<close> (the read timeout
  set by \<^verbatim>\<open>SetInputAttr\<close>); a \<^verbatim>\<open>Write\<close> with none left succeeds. \<open>port_written\<close> lists the
  argument of every \<^verbatim>\<open>Write\<close> call made so far, and \<open>log_lines\<close> the messages of the
  \<^verbatim>\<open>log.Print\<close> calls; the \<^verbatim>\<open>log.Printf\<close> dumps are left out, but every slice expression
  among their arguments is evaluated, since it can panic.
\<close>

datatype read_result = ReadData "byte list" | ReadFail error

record CRT571Service =
  address :: byte
  port_reads :: "read_result list"
  port_writes :: "error option list"
  port_written :: "byte list list"
  log_lines :: "string list"

definition log_Print :: "string \<Rightarrow> CRT571Service \<Rightarrow> CRT571Service" where
  "log_Print msg s = s\<lparr>log_lines := log_lines s @ [msg]\<rparr>"

text \<open>\<^verbatim>\<open>service.port.Write(data)\<close>: the error returned (the byte count is never used).\<close>

definition port_Write :: "byte list \<Rightarrow> CRT571Service \<Rightarrow> error option \<times> CRT571Service" where
  "port_Write data s =
     (case port_writes s of
        [] \<Rightarrow> (None, s\<lparr>port_written := port_written s @ [data]\<rparr>)
      | r # rs \<Rightarrow> (r, s\<lparr>port_writes := rs, port_written := port_written s @ [data]\<rparr>))"

text \<open>
  \<^verbatim>\<open>service.port.Read(b)\<close>: the byte count, the error and the slice \<open>b\<close> after the call. A
  scripted chunk longer than \<open>b\<close> is cut to its length.
\<close>

definition port_Read ::
  "byte list \<Rightarrow> CRT571Service \<Rightarrow> nat \<times> error option \<times> byte list \<times> CRT571Service" where
  "port_Read b s =
     (case port_reads s of
        [] \<Rightarrow> (0, Some io_EOF, b, s)
      | ReadFail e # rs \<Rightarrow> (0, Some e, b, s\<lparr>port_reads := rs\<rparr>)
      | ReadData xs # rs \<Rightarrow>
          (let chunk = take (length b) xs
           in (length chunk, None, chunk @ drop (length chunk) b, s\<lparr>port_reads := rs\<rparr>)))"

subsection \<open>\<open>read\<close> and \<open>exchange\<close> (\<open>part_000\<close> lines 346-424, the same in \<open>part_001\<close>)\<close>

text \<open>
  The loop of \<open>read\<close>, over the script: \<open>i\<close> is the loop variable, each \<^verbatim>\<open>Read\<close> fills
  \<^verbatim>\<open>buf[i:]\<close> (a chunk longer than that is cut, as in \<open>port_Read\<close>). \<^verbatim>\<open>io.EOF\<close> leaves the
  loop with the count \<open>i\<close>; any other error returns it (with count 0). The script is
  finite and ends in \<^verbatim>\<open>io.EOF\<close>, so the loop ends; a port that answers without end is not
  described.
\<close>

fun read_loop ::
  "read_result list \<Rightarrow> byte list \<Rightarrow> nat \<Rightarrow> (error + nat) \<times> byte list \<times> read_result list" where
  "read_loop [] buf i = (Inr i, buf, [])"
| "read_loop (ReadFail e # rs) buf i =
     (if e = io_EOF then (Inr i, buf, rs) else (Inl e, buf, rs))"
| "read_loop (ReadData xs # rs) buf i =
     (let chunk = take (length buf - i) xs
      in read_loop rs (take i buf @ chunk @ drop (i + length chunk) buf) (i + length chunk))"

definition read ::
  "byte list \<Rightarrow> CRT571Service \<Rightarrow> (error + nat) \<times> byte list \<times> CRT571Service" where
  "read buf s =
     (case read_loop (port_reads s) buf 0 of (r, buf', rs) \<Rightarrow> (r, buf', s\<lparr>port_reads := rs\<rparr>))"

text \<open>
  \<open>exchange\<close> is given in two parts. Lines 367-404: write the frame, read the
  acknowledge, find the reply (the rest of the first read, \<^verbatim>\<open>buf[1:]\<close>, when more than one
  byte came; a second read into the same buffer otherwise). The result is the buffer and
  the reply's byte count \<open>len\<close>.
\<close>

definition exchange_receive ::
  "byte list \<Rightarrow> CRT571Service \<Rightarrow> (error + byte list \<times> nat) outcome \<times> CRT571Service" where
  "exchange_receive data s =
     (let buf = replicate CRT571_BUFFER_MAX_LENGTH 0 in
      case port_Write data s of
        (Some err, s1) \<Rightarrow> (Ret (Inl err), s1)
      | (None, s1) \<Rightarrow>
          (case read buf s1 of
             (Inl err, buf, s2) \<Rightarrow> (Ret (Inl err), s2)
           | (Inr len, buf, s2) \<Rightarrow>
               (case index buf 0 of
                  None \<Rightarrow> (Panic, s2)
                | Some b0 \<Rightarrow>
                    if b0 \<noteq> CRT571_ACK
                    then (Ret (Inl (errors_New ''ACK is absent'')),
                          log_Print ''[ERROR] exchange(): ACK is absent'' s2)
                    else if len > 1 then (Ret (Inr (drop 1 buf, len - 1)), s2)
                    else
                      (case read buf s2 of
                         (Inl err, buf, s3) \<Rightarrow> (Ret (Inl err), s3)
                       | (Inr len, buf, s3) \<Rightarrow> (Ret (Inr (buf, len)), s3)))))"

text \<open>
  Lines 406-422: check the reply's last byte \<^verbatim>\<open>buf[len-1]\<close> against the checksum of the
  bytes \<^verbatim>\<open>buf[:len-1]\<close> before it, log the outcome, write the acknowledge, return the
  buffer (all of it, not only its first \<open>len\<close> bytes).
\<close>

definition exchange_finish ::
  "byte list \<Rightarrow> nat \<Rightarrow> CRT571Service \<Rightarrow> (error + byte list) outcome \<times> CRT571Service" where
  "exchange_finish buf len s =
     (case index buf (int len - 1) of
        None \<Rightarrow> (Panic, s)
      | Some bcc \<Rightarrow>
          (case subslice buf 0 (int len - 1) of
             None \<Rightarrow> (Panic, s)
           | Some body \<Rightarrow>
               (let s1 = (if \<not> bccCheck bcc body
                          then log_Print ''[ERROR] exchange(): BCC response check fail!'' s
                          else log_Print ''[INFO] exchange(): BCC response check success'' s)
                in case port_Write [CRT571_ACK] s1 of
                     (Some err, s2) \<Rightarrow> (Ret (Inl err), s2)
                   | (None, s2) \<Rightarrow> (Ret (Inr buf), s2))))"

definition exchange ::
  "byte list \<Rightarrow> CRT571Service \<Rightarrow> (error + byte list) outcome \<times> CRT571Service" where
  "exchange data s =
     (case exchange_receive data s of
        (Panic, s') \<Rightarrow> (Panic, s')
      | (Ret (Inl err), s') \<Rightarrow> (Ret (Inl err), s')
      | (Ret (Inr (buf, len)), s') \<Rightarrow> exchange_finish buf len s')"

subsection \<open>\<open>request\<close> and \<open>Command\<close> of \<open>part_000\<close> (lines 427-499)\<close>

record CRT571Response =
  Type :: byte
  CardStatus :: "byte list"
  ST0Message :: string
  ST1Message :: string
  ST2Message :: string
  ErrorCode :: "byte list"
  ErrorMessage :: string
  DataLen :: int
  Data :: "byte list"

text \<open>\<^verbatim>\<open>var response CRT571Response\<close>: the zero value (a nil slice is the empty list).\<close>

definition zero_CRT571Response :: CRT571Response where
  "zero_CRT571Response =
     \<lparr>Type = 0, CardStatus = [], ST0Message = [], ST1Message = [], ST2Message = [],
      ErrorCode = [], ErrorMessage = [], DataLen = 0, Data = []\<rparr>"

text \<open>Lines 432-449: the bytes of the buffer \<open>b\<close> once the checksum is written.\<close>

definition request_frame :: "byte \<Rightarrow> byte \<Rightarrow> byte \<Rightarrow> byte list \<Rightarrow> byte list" where
  "request_frame addr cm pm data =
     (let datalenb = BigEndian_PutUint16 (word_of_nat (length data + 3));
          b = [CRT571_STX] @ [addr] @ datalenb @ [CRT571_CMT] @ [cm] @ [pm] @ data @ [CRT571_ETX];
          bcc = bccCalc b
      in b @ [bcc])"

text \<open>Lines 432-455: the frame, or the error of the size check.\<close>

definition request_encode :: "byte \<Rightarrow> byte \<Rightarrow> byte \<Rightarrow> byte list \<Rightarrow> error + byte list" where
  "request_encode addr cm pm data =
     (let b = request_frame addr cm pm data in
      if length b > CRT571_BUFFER_MAX_LENGTH
      then Inl (errors_New ''[ERROR] Exceed max packet size for CRT-571'')
      else Inr b)"

text \<open>Lines 462-485: the reply buffer to the pair \<^verbatim>\<open>(*CRT571Response, error)\<close>.\<close>

definition request_decode :: "byte list \<Rightarrow> (CRT571Response option \<times> error option) outcome" where
  "request_decode buf = outcome_of (do {
     lenb \<leftarrow> subslice buf 2 4;
     v \<leftarrow> BigEndian_Uint16 lenb;
     let datalen = int (unat v);
     ty \<leftarrow> index buf 4;
     let response = zero_CRT571Response\<lparr>DataLen := datalen, Type := ty\<rparr>;
     if ty = CRT571_PMT then do {
       status \<leftarrow> subslice buf 7 10;
       st0 \<leftarrow> index buf 7;
       st1 \<leftarrow> index buf 8;
       st2 \<leftarrow> index buf 9;
       d \<leftarrow> subslice buf 10 (10 + datalen - 6);
       Some (Some (response\<lparr>CardStatus := status,
                     ST0Message := CardStatus_get ''ST0'' st0,
                     ST1Message := CardStatus_get ''ST1'' st1,
                     ST2Message := CardStatus_get ''ST2'' st2,
                     Data := d\<rparr>), None)
     } else if ty = CRT571_EMT \<or> ty = CRT571_EMT2 then do {
       d \<leftarrow> subslice buf 9 (9 + datalen - 5);
       code \<leftarrow> subslice buf 6 8;
       let msg = map_get CRT571Errors (string_of_bytes code);
       Some (Some (response\<lparr>Data := d, ErrorCode := code, ErrorMessage := msg\<rparr>),
             Some (errors_New msg))
     } else
       Some (Some response,
             Some (errors_New (''[ERROR] Unknow data response status ['' @ sprintf_x ty @ '']'')))
   })"

definition request ::
  "byte \<Rightarrow> byte \<Rightarrow> byte list \<Rightarrow> CRT571Service \<Rightarrow>
     (CRT571Response option \<times> error option) outcome \<times> CRT571Service" where
  "request cm pm data s =
     (case request_encode (address s) cm pm data of
        Inl err \<Rightarrow> (Ret (None, Some err), s)
      | Inr b \<Rightarrow>
          (case exchange b s of
             (Panic, s') \<Rightarrow> (Panic, s')
           | (Ret (Inl err), s') \<Rightarrow> (Ret (None, Some err), s')
           | (Ret (Inr buf), s') \<Rightarrow> (request_decode buf, s')))"

text \<open>
  \<open>Command\<close>: the request with a nil payload; its result and error are passed on. On
  success the log line reads \<^verbatim>\<open>res.CardStatus\<close>, a nil dereference if \<open>res\<close> were nil.
\<close>

definition Command ::
  "byte \<Rightarrow> byte \<Rightarrow> CRT571Service \<Rightarrow>
     (CRT571Response option \<times> error option) outcome \<times> CRT571Service" where
  "Command command pm s =
     (case request command pm [] s of
        (Panic, s') \<Rightarrow> (Panic, s')
      | (Ret (res, Some err), s') \<Rightarrow> (Ret (res, Some err), s')
      | (Ret (None, None), s') \<Rightarrow> (Panic, s')
      | (Ret (Some r, None), s') \<Rightarrow> (Ret (Some r, None), s'))"

subsection \<open>\<open>request\<close>, \<open>Initialization\<close> and \<open>StatusRequest\<close> of \<open>part_001\<close> (lines 291-353)\<close>

text \<open>
  Lines 295-318 of \<open>part_001\<close> are lines 432-455 of \<open>part_000\<close>, so the encoder is
  \<open>request_encode\<close>. Lines 325-336: the reply buffer to the triple
  \<^verbatim>\<open>([]byte, []byte, error)\<close>; the only negative marker is \<open>CRT571_EMT\<close>. Each branch first
  evaluates the arguments of its \<^verbatim>\<open>log.Printf\<close>.
\<close>

definition request_decode_001 ::
  "byte list \<Rightarrow> (byte list option \<times> byte list option \<times> error option) outcome" where
  "request_decode_001 buf = outcome_of (do {
     lenb \<leftarrow> subslice buf 2 4;
     v \<leftarrow> BigEndian_Uint16 lenb;
     let datalen = int (unat v);
     ty \<leftarrow> index buf 4;
     if ty = CRT571_PMT then do {
       _ \<leftarrow> subslice buf 7 10;
       _ \<leftarrow> index buf 7;
       _ \<leftarrow> index buf 8;
       _ \<leftarrow> index buf 9;
       _ \<leftarrow> subslice buf 10 (10 + datalen - 6);
       status \<leftarrow> subslice buf 7 10;
       d \<leftarrow> subslice buf 10 (10 + datalen);
       Some (Some status, Some d, None)
     } else if ty = CRT571_EMT then do {
       _ \<leftarrow> subslice buf 6 8;
       _ \<leftarrow> subslice buf 9 (9 + datalen - 5);
       d \<leftarrow> subslice buf 9 (9 + datalen);
       code \<leftarrow> subslice buf 6 8;
       Some (None, Some d, Some (errors_New (map_get crt571_errors (string_of_bytes code))))
     } else
       Some (None, None,
             Some (errors_New
               (''[ERROR] Unknow data response status ['' @ sprintf_space_x ty @ '']'')))
   })"

definition request_001 ::
  "byte \<Rightarrow> byte \<Rightarrow> byte list \<Rightarrow> CRT571Service \<Rightarrow>
     (byte list option \<times> byte list option \<times> error option) outcome \<times> CRT571Service" where
  "request_001 cm pm data s =
     (case request_encode (address s) cm pm data of
        Inl err \<Rightarrow> (Ret (None, None, Some err), s)
      | Inr b \<Rightarrow>
          (case exchange b s of
             (Panic, s') \<Rightarrow> (Panic, s')
           | (Ret (Inl err), s') \<Rightarrow> (Ret (None, None, Some err), s')
           | (Ret (Inr buf), s') \<Rightarrow> (request_decode_001 buf, s')))"

text \<open>
  \<open>Initialization\<close> and \<open>StatusRequest\<close> call \<open>request\<close>, drop what it returns and
  \<^verbatim>\<open>return nil\<close>.
\<close>

definition Initialization :: "byte \<Rightarrow> CRT571Service \<Rightarrow> error option outcome \<times> CRT571Service" where
  "Initialization pm s =
     (case request_001 CRT571_CM_INITIALIZE pm [] s of
        (Panic, s') \<Rightarrow> (Panic, s')
      | (Ret _, s') \<Rightarrow> (Ret None, s'))"

definition StatusRequest :: "byte \<Rightarrow> CRT571Service \<Rightarrow> error option outcome \<times> CRT571Service" where
  "StatusRequest pm s =
     (case request_001 CRT571_CM_STATUS_REQUEST pm [] s of
        (Panic, s') \<Rightarrow> (Panic, s')
      | (Ret _, s') \<Rightarrow> (Ret None, s'))"

subsection \<open>\<open>Exchange\<close> and \<open>MakeRequest\<close> of \<open>crt571.go\<close> (lines 186-252)\<close>

text \<open>\<open>Exchange\<close>: one write, one read into a fresh buffer of 1024 bytes.\<close>

definition Exchange ::
  "byte list \<Rightarrow> CRT571Service \<Rightarrow> (error + byte list) \<times> CRT571Service" where
  "Exchange data s =
     (let buf = replicate CRT571_BUFFER_MAX_LENGTH 0 in
      case port_Write data s of
        (Some err, s1) \<Rightarrow> (Inl err, s1)
      | (None, s1) \<Rightarrow>
          (case port_Read buf s1 of
             (len, Some err, buf, s2) \<Rightarrow> (Inl err, s2)
           | (len, None, buf, s2) \<Rightarrow>
               if len < 1 then (Inl (errors_New ''Read buffer is empty''), s2)
               else (Inr buf, s2)))"

text \<open>
  Lines 214-232: the length bytes hold \<^verbatim>\<open>uint16(len(data))\<close>, a second \<open>CRT571_STX\<close> is
  written after \<open>CRT571_ETX\<close>, and the last byte is \<open>bccCalculate\<close> of the buffer.
\<close>

definition MakeRequest_frame :: "byte \<Rightarrow> byte \<Rightarrow> byte \<Rightarrow> byte list \<Rightarrow> byte list" where
  "MakeRequest_frame addr cm pm data =
     (let datalen = BigEndian_PutUint16 (word_of_nat (length data));
          b = [CRT571_STX] @ [addr] @ datalen @ [CRT571_CMT] @ [cm] @ [pm] @ data
                @ [CRT571_ETX] @ [CRT571_STX];
          bcc = bccCalculate b
      in b @ [bcc])"

definition MakeRequest_encode :: "byte \<Rightarrow> byte \<Rightarrow> byte \<Rightarrow> byte list \<Rightarrow> error + byte list" where
  "MakeRequest_encode addr cm pm data =
     (let b = MakeRequest_frame addr cm pm data in
      if length b > CRT571_BUFFER_MAX_LENGTH
      then Inl (errors_New ''Exceed max packet size for CRT-571'')
      else Inr b)"

text \<open>
  Lines 238-251: the switch on \<^verbatim>\<open>buf[4]\<close> returns the buffer for \<open>CRT571_PMT\<close>, an error
  for \<open>CRT571_EMT\<close>, and falls through to \<^verbatim>\<open>return nil, nil\<close> for any other byte.
\<close>

definition MakeRequest ::
  "byte \<Rightarrow> byte \<Rightarrow> byte list \<Rightarrow> CRT571Service \<Rightarrow>
     (byte list option \<times> error option) outcome \<times> CRT571Service" where
  "MakeRequest cm pm data s =
     (case MakeRequest_encode (address s) cm pm data of
        Inl err \<Rightarrow> (Ret (None, Some err), s)
      | Inr b \<Rightarrow>
          (case Exchange b s of
             (Inl err, s') \<Rightarrow> (Ret (None, Some err), s')
           | (Inr buf, s') \<Rightarrow>
               (case index buf 4 of
                  None \<Rightarrow> (Panic, s')
                | Some ty \<Rightarrow>
                    if ty = CRT571_PMT then (Ret (Some buf, None), s')
                    else if ty = CRT571_EMT
                    then (Ret (None, Some (errors_New ''Failed response'')), s')
                    else (Ret (None, None), s'))))"

subsection \<open>Notions used in the statements\<close>

text \<open>
  The value of the length field of a buffer, bytes 2 and 3 read big-endian (what
  \<open>BigEndian_Uint16\<close> yields on \<^verbatim>\<open>buf[2:4]\<close> when the buffer has four bytes).
\<close>

definition declared_length :: "byte list \<Rightarrow> int" where
  "declared_length buf =
     int (unat (ucast (buf ! 3) OR push_bit 8 (ucast (buf ! 2)) :: 16 word))"

text \<open>The two log lines of the checksum branch of \<open>exchange\<close>.\<close>

definition bcc_log_line :: "bool \<Rightarrow> string" where
  "bcc_log_line ok =
     (if ok then ''[INFO] exchange(): BCC response check success''
      else ''[ERROR] exchange(): BCC response check fail!'')"

text \<open>
  A service at address 0 on a port that delivers the given chunks, one per \<^verbatim>\<open>Read\<close>, then
  end of stream, and on which every \<^verbatim>\<open>Write\<close> succeeds.
\<close>

definition device :: "byte list list \<Rightarrow> CRT571Service" where
  "device chunks =
     \<lparr>address = 0, port_reads = map ReadData chunks, port_writes = [],
      port_written = [], log_lines = []\<rparr>"

section \<open>Properties\<close>

lemmas crt_consts =
  CRT571_STX_def CRT571_ETX_def CRT571_CMT_def CRT571_PMT_def CRT571_EMT_def CRT571_EMT2_def
  CRT571_ACK_def

subsection \<open>Checksum\<close>

lemma bccCalc_loop_append:
  "bccCalc_loop (xs @ ys) bcc = bccCalc_loop ys (bccCalc_loop xs bcc)"
  by (induction xs arbitrary: bcc) simp_all

lemma bccCalc_loop_foldl: "bccCalc_loop xs bcc = foldl (XOR) bcc xs"
  by (induction xs arbitrary: bcc) simp_all

text \<open>\<open>bccCalc\<close> is the running exclusive-or of the bytes, in order, from 0.\<close>

lemma bccCalc_foldl: "bccCalc a = foldl (XOR) 0 a"
  by (simp add: bccCalc_def bccCalc_loop_foldl)

lemma bccCalc_snoc: "bccCalc (xs @ [x]) = bccCalc xs XOR x"
  by (simp add: bccCalc_def bccCalc_loop_append)

text \<open>
  Claim C10. For every byte sequence \<open>B\<close>, the checksum of \<open>B\<close> followed by its own
  checksum is zero.
\<close>

theorem bccCalc_self_inverse: "bccCalc (B @ [bccCalc B]) = 0"
  by (simp add: bccCalc_snoc)

subsection \<open>Slices and the length field\<close>

lemma slice_append_mid:
  "subslice (pre @ mid @ post) (int (length pre)) (int (length pre) + int (length mid)) = Some mid"
  by (simp add: subslice_def)

lemma index_append_mid: "index (pre @ x # post) (int (length pre)) = Some x"
  by (simp add: index_def)

lemma slice_2_4: "4 \<le> length buf \<Longrightarrow> subslice buf 2 4 = Some [buf ! 2, buf ! 3]"
proof -
  assume len: "4 \<le> length buf"
  have "drop 2 buf = buf ! 2 # drop 3 buf"
    using len Cons_nth_drop_Suc [of 2 buf] by simp
  moreover have "drop 3 buf = buf ! 3 # drop 4 buf"
    using len Cons_nth_drop_Suc [of 3 buf] by simp
  ultimately have "take 2 (drop 2 buf) = [buf ! 2, buf ! 3]"
    by (simp add: numeral_2_eq_2)
  with len show ?thesis by (simp add: subslice_def)
qed

lemma slice_6_8: "8 \<le> length buf \<Longrightarrow> subslice buf 6 8 = Some [buf ! 6, buf ! 7]"
proof -
  assume len: "8 \<le> length buf"
  have "drop 6 buf = buf ! 6 # drop 7 buf"
    using len Cons_nth_drop_Suc [of 6 buf] by simp
  moreover have "drop 7 buf = buf ! 7 # drop 8 buf"
    using len Cons_nth_drop_Suc [of 7 buf] by simp
  ultimately have "take 2 (drop 6 buf) = [buf ! 6, buf ! 7]"
    by (simp add: numeral_2_eq_2)
  with len show ?thesis by (simp add: subslice_def)
qed

lemma BigEndian_Uint16_pair:
  "BigEndian_Uint16 [hi, lo] = Some (ucast lo OR push_bit 8 (ucast hi))"
  by (simp add: BigEndian_Uint16_def index_def)

lemma Uint16_PutUint16: "BigEndian_Uint16 (BigEndian_PutUint16 v) = Some v"
proof -
  have "ucast (ucast v :: byte) OR push_bit 8 (ucast (ucast (drop_bit 8 v) :: byte)) = v"
    by (rule bit_word_eqI) (auto simp: bit_simps)
  then show ?thesis
    by (simp add: BigEndian_Uint16_def BigEndian_PutUint16_def index_def)
qed

lemma string_of_bytes_10: "string_of_bytes [0x31, 0x30] = ''10''"
  by code_simp

subsection \<open>The request frame\<close>

lemma request_frame_length: "length (request_frame addr cm pm data) = length data + 9"
  by (simp add: request_frame_def BigEndian_PutUint16_def)

lemma MakeRequest_frame_length: "length (MakeRequest_frame addr cm pm data) = length data + 10"
  by (simp add: MakeRequest_frame_def BigEndian_PutUint16_def)

text \<open>
  The frame of \<open>request\<close>: start marker, address, length, command marker, command,
  parameter, payload, end marker, and last the \<open>bccCalc\<close> of all the bytes before it.
\<close>

lemma request_frame_layout:
  "request_frame addr cm pm data =
     [CRT571_STX, addr] @ BigEndian_PutUint16 (word_of_nat (length data + 3)) @
     [CRT571_CMT, cm, pm] @ data @ [CRT571_ETX] @
     [bccCalc ([CRT571_STX, addr] @ BigEndian_PutUint16 (word_of_nat (length data + 3)) @
        [CRT571_CMT, cm, pm] @ data @ [CRT571_ETX])]"
  by (simp add: request_frame_def Let_def)

lemma request_frame_checksum:
  "last (request_frame addr cm pm data) = bccCalc (butlast (request_frame addr cm pm data))"
  by (simp add: request_frame_def Let_def butlast_append)

lemma request_frame_length_field:
  "(subslice (request_frame addr cm pm data) 2 4 \<bind> BigEndian_Uint16) =
     Some (word_of_nat (length data + 3))"
  by (simp add: request_frame_def Let_def subslice_def BigEndian_PutUint16_def
      Uint16_PutUint16 [unfolded BigEndian_PutUint16_def])

text \<open>
  The length field of \<open>MakeRequest\<close> holds the payload length, without the three bytes of
  command marker, command and parameter.
\<close>

lemma MakeRequest_frame_length_field:
  "(subslice (MakeRequest_frame addr cm pm data) 2 4 \<bind> BigEndian_Uint16) =
     Some (word_of_nat (length data))"
  by (simp add: MakeRequest_frame_def Let_def subslice_def BigEndian_PutUint16_def
      Uint16_PutUint16 [unfolded BigEndian_PutUint16_def])

text \<open>
  Claim C1. For address 0x00, command 0x31, parameter 0x30 and an empty payload the request
  encoder is to produce the nine bytes F2 00 00 03 43 31 30 03 and their exclusive-or.
  \<open>request\<close> does (the exclusive-or is B0); \<open>MakeRequest\<close> of \<open>crt571.go\<close> produces
  ten bytes: the length field is 00 00, a second F2 follows the end marker, and the last
  byte is the constant 99.
\<close>

theorem status_request_frames:
  "request_frame 0x00 0x31 0x30 [] = [0xF2, 0x00, 0x00, 0x03, 0x43, 0x31, 0x30, 0x03, 0xB0]
   \<and> bccCalc [0xF2, 0x00, 0x00, 0x03, 0x43, 0x31, 0x30, 0x03] = 0xB0
   \<and> MakeRequest_frame 0x00 0x31 0x30 [] =
       [0xF2, 0x00, 0x00, 0x00, 0x43, 0x31, 0x30, 0x03, 0xF2, 0x99]"
  by (simp add: request_frame_def MakeRequest_frame_def BigEndian_PutUint16_def bccCalc_def
      bccCalculate_def crt_consts)

text \<open>
  Claim C2, as amended. For every payload the encoder of \<open>request\<close> accepts, the length
  field of the frame is the payload length plus 3, and that many bytes lie between the
  length field and the end marker: command marker, command, parameter and payload. The end
  marker follows them and is not counted.
\<close>

theorem request_length_field:
  assumes "request_encode addr cm pm data = Inr b"
  shows "(subslice b 2 4 \<bind> BigEndian_Uint16) = Some (word_of_nat (length data + 3))
         \<and> unat (word_of_nat (length data + 3) :: 16 word) = length data + 3
         \<and> subslice b 4 (4 + (int (length data) + 3)) = Some ([CRT571_CMT, cm, pm] @ data)
         \<and> index b (4 + (int (length data) + 3)) = Some CRT571_ETX"
proof -
  from assms have b: "b = request_frame addr cm pm data" and small: "length data \<le> 1015"
    by (auto simp: request_encode_def Let_def request_frame_length CRT571_BUFFER_MAX_LENGTH_def
        split: if_splits)
  have val: "unat (word_of_nat (length data + 3) :: 16 word) = length data + 3"
    using small by (simp only: unat_of_nat) simp
  define pre where "pre = [CRT571_STX, addr] @ BigEndian_PutUint16 (word_of_nat (length data + 3))"
  define mid where "mid = [CRT571_CMT, cm, pm] @ data"
  define bcc where "bcc = bccCalc (pre @ mid @ [CRT571_ETX])"
  have fr: "b = pre @ mid @ [CRT571_ETX, bcc]" and fr': "b = (pre @ mid) @ CRT571_ETX # [bcc]"
    by (simp_all add: b request_frame_def Let_def pre_def mid_def bcc_def)
  have lens: "int (length pre) = 4" "int (length mid) = int (length data) + 3"
    "int (length (pre @ mid)) = 4 + (int (length data) + 3)"
    by (simp_all add: pre_def mid_def BigEndian_PutUint16_def)
  have "subslice b (int (length pre)) (int (length pre) + int (length mid)) = Some mid"
    unfolding fr by (rule slice_append_mid)
  then have "subslice b 4 (4 + (int (length data) + 3)) = Some mid"
    by (simp only: lens)
  then have body: "subslice b 4 (4 + (int (length data) + 3)) = Some ([CRT571_CMT, cm, pm] @ data)"
    by (simp only: mid_def)
  have "index b (int (length (pre @ mid))) = Some CRT571_ETX"
    unfolding fr' by (rule index_append_mid)
  then have etx: "index b (4 + (int (length data) + 3)) = Some CRT571_ETX"
    by (simp only: lens)
  from val body etx show ?thesis
    by (simp only: b request_frame_length_field)
qed

text \<open>The theorem at the payload AA BB: the field is 5, and five bytes precede the end marker.\<close>

theorem request_length_field_witness:
  "request_encode 0x00 0x31 0x30 [0xAA, 0xBB] =
     Inr [0xF2, 0x00, 0x00, 0x05, 0x43, 0x31, 0x30, 0xAA, 0xBB, 0x03, 0xA7]
   \<and> (subslice [0xF2, 0x00, 0x00, 0x05, 0x43, 0x31, 0x30, 0xAA, 0xBB, 0x03, 0xA7] 2 4
         \<bind> BigEndian_Uint16) = Some 5
   \<and> subslice [0xF2, 0x00, 0x00, 0x05, 0x43, 0x31, 0x30, 0xAA, 0xBB, 0x03, 0xA7] 4 9
       = Some [0x43, 0x31, 0x30, 0xAA, 0xBB]
   \<and> index [0xF2, 0x00, 0x00, 0x05, 0x43, 0x31, 0x30, 0xAA, 0xBB, 0x03, 0xA7] 9 = Some 0x03"
proof -
  have enc: "request_encode 0x00 0x31 0x30 [0xAA, 0xBB] =
      Inr [0xF2, 0x00, 0x00, 0x05, 0x43, 0x31, 0x30, 0xAA, 0xBB, 0x03, 0xA7]"
    by (simp add: request_encode_def request_frame_def Let_def BigEndian_PutUint16_def bccCalc_def
        CRT571_BUFFER_MAX_LENGTH_def crt_consts)
  from request_length_field [OF enc] enc show ?thesis
    by (simp add: crt_consts)
qed

text \<open>
  Claim C2 as stated fails: in the frame of the empty payload the length field is 3, and
  the bytes from the command marker through the end marker, both included, are four.
\<close>

theorem request_length_field_excludes_ETX:
  "(subslice (request_frame 0x00 0x31 0x30 []) 2 4 \<bind> BigEndian_Uint16) = Some 3
   \<and> subslice (request_frame 0x00 0x31 0x30 []) 4 8 = Some [CRT571_CMT, 0x31, 0x30, CRT571_ETX]
   \<and> length [CRT571_CMT, 0x31, 0x30, CRT571_ETX] \<noteq> unat (3 :: 16 word)"
  by (simp add: request_frame_def Let_def BigEndian_PutUint16_def BigEndian_Uint16_def index_def
      subslice_def bccCalc_def crt_consts)

text \<open>
  Claim C3. The checksum is to be the running exclusive-or of the bytes, and the encoder
  is to append it, taken over start marker through end marker, as the last byte.
  \<open>bccCalc\<close> and \<open>request\<close> do (\<open>bccCalc_foldl\<close>, \<open>request_frame_layout\<close>,
  \<open>request_frame_checksum\<close>). \<open>bccCalculate\<close> of \<open>crt571.go\<close> returns 99 whatever the
  bytes: the frame of \<open>MakeRequest\<close> ends in 99 where the exclusive-or of the bytes before
  it is 41, and the checksum of no bytes is 99, not 0.
\<close>

theorem MakeRequest_checksum_constant:
  "last (MakeRequest_frame 0x00 0x31 0x30 []) = 0x99
   \<and> bccCalc (butlast (MakeRequest_frame 0x00 0x31 0x30 [])) = 0x41
   \<and> bccCalculate [] = 0x99 \<and> bccCalc [] = 0x00"
  by (simp add: MakeRequest_frame_def BigEndian_PutUint16_def bccCalc_def bccCalculate_def
      crt_consts)

subsection \<open>The size check\<close>

lemma port_Write_written:
  "port_Write d s = (r, s') \<Longrightarrow> port_written s' = port_written s @ [d]"
  by (auto simp: port_Write_def split: list.splits)

lemma read_written: "read buf s = (r, buf', s') \<Longrightarrow> port_written s' = port_written s"
  by (auto simp: read_def split: prod.splits)

lemma exchange_receive_written:
  "exchange_receive d s = (r, s') \<Longrightarrow> port_written s' = port_written s @ [d]"
  by (auto simp: exchange_receive_def Let_def log_Print_def
      split: prod.splits option.splits sum.splits if_splits
      dest!: port_Write_written read_written)

lemma exchange_finish_written:
  "exchange_finish buf n s = (r, s') \<Longrightarrow>
     port_written s' = port_written s \<or> port_written s' = port_written s @ [[CRT571_ACK]]"
  by (auto simp: exchange_finish_def Let_def log_Print_def
      split: prod.splits option.splits sum.splits if_splits
      dest!: port_Write_written)

text \<open>Every exchange writes to the port.\<close>

lemma exchange_written: "exchange d s = (r, s') \<Longrightarrow> port_written s' \<noteq> port_written s"
  by (auto simp: exchange_def split: prod.splits outcome.splits sum.splits
      dest!: exchange_receive_written exchange_finish_written)

text \<open>The size check of \<open>MakeRequest\<close> is the same test on a frame one byte longer.\<close>

lemma MakeRequest_encode_too_large:
  "(MakeRequest_encode addr cm pm data = Inl (errors_New ''Exceed max packet size for CRT-571''))
     = (1024 < length (MakeRequest_frame addr cm pm data))"
  by (simp add: MakeRequest_encode_def Let_def CRT571_BUFFER_MAX_LENGTH_def)

text \<open>
  Claim C4, as amended. The encoder of \<open>request\<close> fails with its size error exactly when
  the encoded frame, of 9 bytes more than the payload, is longer than 1024 bytes, that is
  exactly when the payload is longer than 1015 bytes, and yields the frame exactly when the
  payload has at most 1015 bytes; \<open>request\<close> returns that error with nothing written to
  the port exactly in that case.
\<close>

theorem request_encode_too_large:
  "(request_encode addr cm pm data =
      Inl (errors_New ''[ERROR] Exceed max packet size for CRT-571'')) = (1015 < length data)
   \<and> (request_encode addr cm pm data = Inr (request_frame addr cm pm data))
       = (length data \<le> 1015)
   \<and> (1015 < length data) = (1024 < length (request_frame addr cm pm data))
   \<and> (request cm pm data s =
        (Ret (None, Some (errors_New ''[ERROR] Exceed max packet size for CRT-571'')), s))
       = (1015 < length data)"
proof -
  have enc: "(request_encode addr cm pm data =
      Inl (errors_New ''[ERROR] Exceed max packet size for CRT-571'')) = (1015 < length data)"
    "(request_encode addr cm pm data = Inr (request_frame addr cm pm data)) = (length data \<le> 1015)"
    "(1015 < length data) = (1024 < length (request_frame addr cm pm data))" for addr
    by (auto simp: request_encode_def Let_def request_frame_length CRT571_BUFFER_MAX_LENGTH_def)
  have "(request cm pm data s =
        (Ret (None, Some (errors_New ''[ERROR] Exceed max packet size for CRT-571'')), s))
       = (1015 < length data)"
  proof (cases "1015 < length data")
    case True
    then show ?thesis
      by (simp add: request_def enc(1) [of "address s", THEN iffD2])
  next
    case False
    then have e: "request_encode (address s) cm pm data = Inr (request_frame (address s) cm pm data)"
      by (simp add: enc(2))
    obtain r s' where ex: "exchange (request_frame (address s) cm pm data) s = (r, s')"
      by (cases "exchange (request_frame (address s) cm pm data) s")
    from exchange_written [OF ex] have "s' \<noteq> s" by auto
    moreover have "snd (request cm pm data s) = s'"
      by (simp add: request_def e ex split: outcome.splits sum.splits)
    ultimately have "request cm pm data s \<noteq>
        (Ret (None, Some (errors_New ''[ERROR] Exceed max packet size for CRT-571'')), s)"
      by (metis snd_conv)
    with False show ?thesis by simp
  qed
  with enc [of addr] show ?thesis by simp
qed

text \<open>
  Claim C4 as stated fails: a payload of 1021 bytes makes a frame of 1030 bytes, and the
  encoder fails.
\<close>

theorem request_encode_1021_fails:
  "request_encode 0x00 0x31 0x30 (replicate 1021 0) =
     Inl (errors_New ''[ERROR] Exceed max packet size for CRT-571'')"
  by (simp add: request_encode_def Let_def request_frame_length CRT571_BUFFER_MAX_LENGTH_def)

subsection \<open>The exchange\<close>

text \<open>\<open>read\<close> keeps the buffer's length and counts no more bytes than it holds.\<close>

lemma read_loop_bounds:
  "i \<le> length buf \<Longrightarrow> read_loop rs buf i = (r, buf', rs') \<Longrightarrow>
     length buf' = length buf \<and>
     (case r of Inl e \<Rightarrow> True | Inr n \<Rightarrow> i \<le> n \<and> n \<le> length buf)"
proof (induction rs buf i arbitrary: r buf' rs' rule: read_loop.induct)
  case (1 buf i)
  then show ?case by auto
next
  case (2 e rs buf i)
  then show ?case by (auto split: if_splits)
next
  case (3 xs rs buf i)
  let ?chunk = "take (length buf - i) xs"
  let ?buf = "take i buf @ ?chunk @ drop (i + length ?chunk) buf"
  have len: "length ?buf = length buf" using "3.prems"(1) by auto
  have step: "read_loop rs ?buf (i + length ?chunk) = (r, buf', rs')"
    using "3.prems"(2) by (simp add: Let_def)
  have "i + length ?chunk \<le> length ?buf" using "3.prems"(1) len by auto
  from "3.IH" [OF refl this step] len show ?case
    by (auto split: sum.splits)
qed

lemma read_bounds:
  "read buf s = (Inr n, buf', s') \<Longrightarrow> length buf' = length buf \<and> n \<le> length buf"
  using read_loop_bounds [of 0 buf "port_reads s" "Inr n" buf']
  by (auto simp: read_def split: prod.splits)

lemma exchange_receive_bounds:
  assumes "exchange_receive data s = (Ret (Inr (buf, len)), s')"
  shows "len \<le> length buf"
  using assms
  by (auto simp: exchange_receive_def Let_def port_Write_def index_def CRT571_BUFFER_MAX_LENGTH_def
      split: prod.splits option.splits sum.splits if_splits list.splits dest!: read_bounds)

text \<open>
  Claim C6. Once a reply of at least one byte is in the buffer, \<open>exchange\<close> logs the
  outcome of the checksum check, writes the acknowledge byte and returns the buffer, or the
  error of that write; the checksum decides the log line and nothing else.
\<close>

theorem exchange_checksum_lenient:
  assumes rx: "exchange_receive data s = (Ret (Inr (buf, len)), s')" and pos: "0 < len"
  shows "exchange data s =
           (case port_writes s' of Some err # _ \<Rightarrow> Ret (Inl err) | _ \<Rightarrow> Ret (Inr buf),
            s'\<lparr>port_writes := tl (port_writes s'),
               port_written := port_written s' @ [[CRT571_ACK]],
               log_lines := log_lines s' @
                 [bcc_log_line (bccCheck (buf ! (len - 1)) (take (len - 1) buf))]\<rparr>)"
proof -
  have le: "len \<le> length buf" using rx by (rule exchange_receive_bounds)
  have i: "index buf (int len - 1) = Some (buf ! (len - 1))"
    using pos le by (simp add: index_def nat_diff_distrib')
  have sl: "subslice buf 0 (int len - 1) = Some (take (len - 1) buf)"
    using pos le by (simp add: subslice_def nat_diff_distrib')
  show ?thesis
    by (cases "port_writes s'")
       (auto simp: exchange_def rx exchange_finish_def i sl port_Write_def log_Print_def
          bcc_log_line_def Let_def split: option.splits)
qed

text \<open>
  A reply whose last byte FF is not the checksum 96 of the bytes before it, arriving in
  one chunk with the acknowledge.
\<close>

lemma exchange_receive_coalesced:
  "exchange_receive [0xF2, 0x00, 0x00, 0x03, 0x43, 0x31, 0x30, 0x03, 0xB0]
       (device [[0x06, 0xF2, 0x00, 0x00, 0x06, 0x50, 0x31, 0x30, 0x32, 0x32, 0x30, 0x03, 0xFF]]) =
     (Ret (Inr ([0xF2, 0x00, 0x00, 0x06, 0x50, 0x31, 0x30, 0x32, 0x32, 0x30, 0x03, 0xFF]
                  @ replicate 1011 0, 12)),
      (device []) \<lparr>port_written := [[0xF2, 0x00, 0x00, 0x03, 0x43, 0x31, 0x30, 0x03, 0xB0]]\<rparr>)"
  by (simp add: exchange_receive_def device_def port_Write_def read_def index_def
      CRT571_BUFFER_MAX_LENGTH_def CRT571_ACK_def Let_def)

theorem exchange_checksum_lenient_witness:
  "exchange_receive [0xF2, 0x00, 0x00, 0x03, 0x43, 0x31, 0x30, 0x03, 0xB0]
       (device [[0x06, 0xF2, 0x00, 0x00, 0x06, 0x50, 0x31, 0x30, 0x32, 0x32, 0x30, 0x03, 0xFF]]) =
     (Ret (Inr ([0xF2, 0x00, 0x00, 0x06, 0x50, 0x31, 0x30, 0x32, 0x32, 0x30, 0x03, 0xFF]
                  @ replicate 1011 0, 12)),
      (device []) \<lparr>port_written := [[0xF2, 0x00, 0x00, 0x03, 0x43, 0x31, 0x30, 0x03, 0xB0]]\<rparr>)
   \<and> (0::nat) < 12
   \<and> \<not> bccCheck 0xFF [0xF2, 0x00, 0x00, 0x06, 0x50, 0x31, 0x30, 0x32, 0x32, 0x30, 0x03]
   \<and> exchange [0xF2, 0x00, 0x00, 0x03, 0x43, 0x31, 0x30, 0x03, 0xB0]
       (device [[0x06, 0xF2, 0x00, 0x00, 0x06, 0x50, 0x31, 0x30, 0x32, 0x32, 0x30, 0x03, 0xFF]]) =
     (Ret (Inr ([0xF2, 0x00, 0x00, 0x06, 0x50, 0x31, 0x30, 0x32, 0x32, 0x30, 0x03, 0xFF]
                  @ replicate 1011 0)),
      (device []) \<lparr>port_written :=
                      [[0xF2, 0x00, 0x00, 0x03, 0x43, 0x31, 0x30, 0x03, 0xB0], [0x06]],
                    log_lines := [''[ERROR] exchange(): BCC response check fail!'']\<rparr>)"
proof -
  have pos: "(0::nat) < 12" by simp
  have bad: "\<not> bccCheck 0xFF [0xF2, 0x00, 0x00, 0x06, 0x50, 0x31, 0x30, 0x32, 0x32, 0x30, 0x03]"
    by (simp add: bccCheck_def bccCalc_def)
  have "exchange [0xF2, 0x00, 0x00, 0x03, 0x43, 0x31, 0x30, 0x03, 0xB0]
       (device [[0x06, 0xF2, 0x00, 0x00, 0x06, 0x50, 0x31, 0x30, 0x32, 0x32, 0x30, 0x03, 0xFF]]) =
     (Ret (Inr ([0xF2, 0x00, 0x00, 0x06, 0x50, 0x31, 0x30, 0x32, 0x32, 0x30, 0x03, 0xFF]
                  @ replicate 1011 0)),
      (device []) \<lparr>port_written :=
                      [[0xF2, 0x00, 0x00, 0x03, 0x43, 0x31, 0x30, 0x03, 0xB0], [0x06]],
                    log_lines := [''[ERROR] exchange(): BCC response check fail!'']\<rparr>)"
    using exchange_checksum_lenient [OF exchange_receive_coalesced pos] bad
    by (simp add: device_def bcc_log_line_def CRT571_ACK_def)
  with exchange_receive_coalesced pos bad show ?thesis by (intro conjI)
qed

text \<open>
  The same reply with its checksum 96 as last byte: the same buffer comes back, the log
  line is the other one. When the second read brings no byte at all, the check indexes
  the buffer at -1 and \<open>exchange\<close> panics.
\<close>

lemma exchange_good_checksum:
  "exchange [0xF2, 0x00, 0x00, 0x03, 0x43, 0x31, 0x30, 0x03, 0xB0]
       (device [[0x06, 0xF2, 0x00, 0x00, 0x06, 0x50, 0x31, 0x30, 0x32, 0x32, 0x30, 0x03, 0x96]]) =
     (Ret (Inr ([0xF2, 0x00, 0x00, 0x06, 0x50, 0x31, 0x30, 0x32, 0x32, 0x30, 0x03, 0x96]
                  @ replicate 1011 0)),
      (device []) \<lparr>port_written :=
                      [[0xF2, 0x00, 0x00, 0x03, 0x43, 0x31, 0x30, 0x03, 0xB0], [0x06]],
                    log_lines := [''[INFO] exchange(): BCC response check success'']\<rparr>)"
  by (simp add: exchange_def exchange_receive_def exchange_finish_def device_def port_Write_def
      read_def index_def subslice_def bccCheck_def bccCalc_def log_Print_def
      CRT571_BUFFER_MAX_LENGTH_def CRT571_ACK_def Let_def)

lemma exchange_empty_reply_panics:
  "fst (exchange [0xF2, 0x00, 0x00, 0x03, 0x43, 0x31, 0x30, 0x03, 0xB0] (device [[0x06]])) = Panic"
  by (simp add: exchange_def exchange_receive_def exchange_finish_def device_def port_Write_def
      read_def index_def CRT571_BUFFER_MAX_LENGTH_def CRT571_ACK_def Let_def)

subsection \<open>Decoding the reply\<close>

text \<open>On five bytes or more, the length field and the marker are read without panic.\<close>

lemma request_decode_alt:
  "5 \<le> length buf \<Longrightarrow> request_decode buf = outcome_of (
     let datalen = declared_length buf; ty = buf ! 4;
         response = zero_CRT571Response\<lparr>DataLen := datalen, Type := ty\<rparr> in
     if ty = CRT571_PMT then do {
       status \<leftarrow> subslice buf 7 10;
       st0 \<leftarrow> index buf 7;
       st1 \<leftarrow> index buf 8;
       st2 \<leftarrow> index buf 9;
       d \<leftarrow> subslice buf 10 (10 + datalen - 6);
       Some (Some (response\<lparr>CardStatus := status,
                     ST0Message := CardStatus_get ''ST0'' st0,
                     ST1Message := CardStatus_get ''ST1'' st1,
                     ST2Message := CardStatus_get ''ST2'' st2,
                     Data := d\<rparr>), None)
     } else if ty = CRT571_EMT \<or> ty = CRT571_EMT2 then do {
       d \<leftarrow> subslice buf 9 (9 + datalen - 5);
       code \<leftarrow> subslice buf 6 8;
       let msg = map_get CRT571Errors (string_of_bytes code);
       Some (Some (response\<lparr>Data := d, ErrorCode := code, ErrorMessage := msg\<rparr>),
             Some (errors_New msg))
     } else
       Some (Some response,
             Some (errors_New (''[ERROR] Unknow data response status ['' @ sprintf_x ty @ '']''))))"
  by (simp add: request_decode_def slice_2_4 BigEndian_Uint16_pair declared_length_def index_def
      Let_def)

lemma request_decode_001_alt:
  "5 \<le> length buf \<Longrightarrow> request_decode_001 buf = outcome_of (
     let datalen = declared_length buf; ty = buf ! 4 in
     if ty = CRT571_PMT then do {
       _ \<leftarrow> subslice buf 7 10;
       _ \<leftarrow> index buf 7;
       _ \<leftarrow> index buf 8;
       _ \<leftarrow> index buf 9;
       _ \<leftarrow> subslice buf 10 (10 + datalen - 6);
       status \<leftarrow> subslice buf 7 10;
       d \<leftarrow> subslice buf 10 (10 + datalen);
       Some (Some status, Some d, None)
     } else if ty = CRT571_EMT then do {
       _ \<leftarrow> subslice buf 6 8;
       _ \<leftarrow> subslice buf 9 (9 + datalen - 5);
       d \<leftarrow> subslice buf 9 (9 + datalen);
       code \<leftarrow> subslice buf 6 8;
       Some (None, Some d, Some (errors_New (map_get crt571_errors (string_of_bytes code))))
     } else
       Some (None, None,
             Some (errors_New
               (''[ERROR] Unknow data response status ['' @ sprintf_space_x ty @ '']''))))"
  by (simp add: request_decode_001_def slice_2_4 BigEndian_Uint16_pair declared_length_def
      index_def Let_def)

lemma request_decode_short: "length buf < 5 \<Longrightarrow> request_decode buf = Panic"
  by (cases "length buf < 4")
     (simp_all add: request_decode_def subslice_def index_def outcome_of_def BigEndian_Uint16_def
        numeral_3_eq_3)

text \<open>
  Claim C5, as amended. Response decoding has no length check of its own and no result
  for a truncated frame; its slice expressions are checked by the Go run time only. With
  \<open>L\<close> the declared length, decoding (\<open>request\<close> of \<open>part_000\<close>) panics exactly when the
  buffer has fewer than 5 bytes, or the marker is positive and \<open>L < 6\<close> or \<open>L + 4\<close> exceeds
  the buffer, or the marker is negative and \<open>L < 5\<close> or \<open>L + 4\<close> exceeds the buffer. In
  every other case decoding returns.
\<close>

theorem request_decode_Panic_iff:
  "request_decode buf = Panic \<longleftrightarrow>
     length buf < 5 \<or>
     (buf ! 4 = CRT571_PMT \<and>
        (declared_length buf < 6 \<or> int (length buf) < declared_length buf + 4)) \<or>
     ((buf ! 4 = CRT571_EMT \<or> buf ! 4 = CRT571_EMT2) \<and>
        (declared_length buf < 5 \<or> int (length buf) < declared_length buf + 4))"
proof (cases "length buf < 5")
  case True
  then show ?thesis by (simp add: request_decode_short)
next
  case False
  then have "5 \<le> length buf" by simp
  then show ?thesis
    by (auto simp: request_decode_alt outcome_of_def subslice_def index_def Let_def crt_consts
        split: option.splits)
qed

text \<open>
  Claim C5 as stated fails. A buffer of 1024 bytes with the positive marker and the
  declared length 1024 is shorter than the offset 1028 its length field implies: both
  decoders panic. A reply cut after its fifth byte, with the declared length 6, is decoded
  out of the buffer's zero padding as a success.
\<close>

theorem request_decode_unchecked:
  "request_decode ([0xF2, 0x00, 0x04, 0x00, 0x50] @ replicate 1019 0) = Panic
   \<and> request_decode_001 ([0xF2, 0x00, 0x04, 0x00, 0x50] @ replicate 1019 0) = Panic
   \<and> request_decode ([0xF2, 0x00, 0x00, 0x06, 0x50] @ replicate 1019 0) =
       Ret (Some (zero_CRT571Response\<lparr>DataLen := 6, Type := 0x50, CardStatus := [0, 0, 0]\<rparr>),
            None)"
  by (simp add: request_decode_def request_decode_001_def subslice_def index_def BigEndian_Uint16_def
      crt_consts outcome_of_def Let_def CardStatus_get_def CRT571CardStatus_def map_get_def
      CRT571_ST0_NO_CARD_def CRT571_ST0_ONE_CARD_IN_GATE_def CRT571_ST0_ONE_CARD_ON_POSITION_def
      CRT571_ST1_NO_CARD_IN_STACKER_def CRT571_ST1_FEW_CARD_IN_STACKER_def
      CRT571_ST1_ENOUGH_CARDS_IN_BOX_def CRT571_ST2_ERROR_CARD_BIN_NOT_FULL_def
      CRT571_ST2_ERROR_CARD_BIN_FULL_def zero_CRT571Response_def)
     (simp add: numeral_3_eq_3)

text \<open>What \<open>request\<close> returns, from what \<open>exchange\<close> returns.\<close>

lemma request_decoded:
  "request_encode (address s) cm pm data = Inr b \<Longrightarrow> fst (exchange b s) = Ret (Inr buf) \<Longrightarrow>
     fst (request cm pm data s) = request_decode buf"
  by (auto simp: request_def split: prod.splits outcome.splits sum.splits)

lemma request_001_decoded:
  "request_encode (address s) cm pm data = Inr b \<Longrightarrow> fst (exchange b s) = Ret (Inr buf) \<Longrightarrow>
     fst (request_001 cm pm data s) = request_decode_001 buf"
  by (auto simp: request_001_def split: prod.splits outcome.splits sum.splits)

lemma request_exchange_error:
  "request_encode (address s) cm pm data = Inr b \<Longrightarrow> fst (exchange b s) = Ret (Inl err) \<Longrightarrow>
     fst (request cm pm data s) = Ret (None, Some err)"
  by (auto simp: request_def split: prod.splits outcome.splits sum.splits)

lemma request_001_exchange_error:
  "request_encode (address s) cm pm data = Inr b \<Longrightarrow> fst (exchange b s) = Ret (Inl err) \<Longrightarrow>
     fst (request_001 cm pm data s) = Ret (None, None, Some err)"
  by (auto simp: request_001_def split: prod.splits outcome.splits sum.splits)

lemma request_encode_nil: "request_encode 0x00 cm pm [] = Inr (request_frame 0x00 cm pm [])"
  by (simp add: request_encode_def Let_def request_frame_length CRT571_BUFFER_MAX_LENGTH_def)

lemma address_device: "address (device chunks) = 0x00"
  by (simp add: device_def)

text \<open>
  In \<open>request\<close> of \<open>part_000\<close> both negative markers lead to the same branch: the error
  code is bytes 6 and 7, the message its entry in \<open>CRT571Errors\<close>, and the error returned
  carries that message.
\<close>

lemma request_decode_negative:
  assumes mark: "buf ! 4 = CRT571_EMT \<or> buf ! 4 = CRT571_EMT2"
    and lo: "5 \<le> declared_length buf" and hi: "declared_length buf + 4 \<le> int (length buf)"
  shows "request_decode buf =
           Ret (Some (zero_CRT571Response\<lparr>DataLen := declared_length buf, Type := buf ! 4,
                        Data := take (nat (declared_length buf - 5)) (drop 9 buf),
                        ErrorCode := [buf ! 6, buf ! 7],
                        ErrorMessage := map_get CRT571Errors (string_of_bytes [buf ! 6, buf ! 7])\<rparr>),
                Some (errors_New (map_get CRT571Errors (string_of_bytes [buf ! 6, buf ! 7]))))"
proof -
  from lo hi have len: "9 \<le> length buf" by simp
  then have a: "5 \<le> length buf" and b: "8 \<le> length buf" by simp_all
  have d: "subslice buf 9 (4 + declared_length buf) =
      Some (take (nat (declared_length buf - 5)) (drop 9 buf))"
    using lo hi by (simp add: subslice_def)
  from mark show ?thesis
    by (auto simp: request_decode_alt [OF a] slice_6_8 [OF b] d outcome_of_def Let_def crt_consts)
qed

text \<open>
  Claim C7. Both negative markers, 45 and 4E, are to lead to the negative branch. A
  negative reply with the marker 4E and the error code "10": \<open>request\<close> of \<open>part_000\<close>
  returns the response with that code and the error "Card Jam"; \<open>request\<close> of
  \<open>part_001\<close>, whose switch has the case \<open>CRT571_EMT\<close> only, returns the error of an
  unknown response status.
\<close>

theorem request_001_alternate_marker:
  "fst (request_001 0x31 0x30 []
          (device [[0x06, 0xF2, 0x00, 0x00, 0x05, 0x4E, 0x31, 0x31, 0x30, 0x30, 0x03, 0xBA]])) =
     Ret (None, None, Some (errors_New ''[ERROR] Unknow data response status [ 4e]''))
   \<and> fst (request 0x31 0x30 []
          (device [[0x06, 0xF2, 0x00, 0x00, 0x05, 0x4E, 0x31, 0x31, 0x30, 0x30, 0x03, 0xBA]])) =
     Ret (Some \<lparr>Type = 0x4E, CardStatus = [], ST0Message = [], ST1Message = [], ST2Message = [],
                ErrorCode = [0x31, 0x30], ErrorMessage = ''Card Jam'', DataLen = 5, Data = []\<rparr>,
          Some (errors_New ''Card Jam''))"
proof -
  let ?s = "device [[0x06, 0xF2, 0x00, 0x00, 0x05, 0x4E, 0x31, 0x31, 0x30, 0x30, 0x03, 0xBA]]"
  let ?buf = "[0xF2, 0x00, 0x00, 0x05, 0x4E, 0x31, 0x31, 0x30, 0x30, 0x03, 0xBA]
                @ replicate 1012 (0::byte)"
  have enc: "request_encode (address ?s) 0x31 0x30 [] = Inr (request_frame 0x00 0x31 0x30 [])"
    by (simp only: address_device request_encode_nil)
  have ex: "fst (exchange (request_frame 0x00 0x31 0x30 []) ?s) = Ret (Inr ?buf)"
    by (simp add: exchange_def exchange_receive_def exchange_finish_def device_def port_Write_def
        read_def index_def subslice_def CRT571_BUFFER_MAX_LENGTH_def CRT571_ACK_def Let_def
        log_Print_def)
  have d1: "request_decode_001 ?buf =
      Ret (None, None, Some (errors_New ''[ERROR] Unknow data response status [ 4e]''))"
    by (simp add: request_decode_001_def subslice_def index_def BigEndian_Uint16_def crt_consts
        outcome_of_def sprintf_space_x_def sprintf_x_def hex_digit_def Let_def)
  have d0: "request_decode ?buf =
      Ret (Some \<lparr>Type = 0x4E, CardStatus = [], ST0Message = [], ST1Message = [], ST2Message = [],
                ErrorCode = [0x31, 0x30], ErrorMessage = ''Card Jam'', DataLen = 5, Data = []\<rparr>,
          Some (errors_New ''Card Jam''))"
    by (simp add: request_decode_def subslice_def index_def BigEndian_Uint16_def crt_consts
        outcome_of_def string_of_bytes_10 map_get_def CRT571Errors_def zero_CRT571Response_def
        Let_def)
  show ?thesis
    by (simp only: request_001_decoded [OF enc ex] request_decoded [OF enc ex] d1 d0)
qed

text \<open>
  A marker that no case of the switch names: \<open>request\<close> returns an error whose message
  shows the byte in hexadecimal, in \<open>part_000\<close> together with the response holding the
  byte and the declared length.
\<close>

lemma request_decode_unknown:
  assumes "5 \<le> length buf" "buf ! 4 \<noteq> CRT571_PMT" "buf ! 4 \<noteq> CRT571_EMT"
    "buf ! 4 \<noteq> CRT571_EMT2"
  shows "request_decode buf =
           Ret (Some (zero_CRT571Response\<lparr>DataLen := declared_length buf, Type := buf ! 4\<rparr>),
                Some (errors_New
                  (''[ERROR] Unknow data response status ['' @ sprintf_x (buf ! 4) @ '']'')))"
  using assms by (simp add: request_decode_alt outcome_of_def Let_def)

lemma request_decode_001_unknown:
  assumes "5 \<le> length buf" "buf ! 4 \<noteq> CRT571_PMT" "buf ! 4 \<noteq> CRT571_EMT"
  shows "request_decode_001 buf =
           Ret (None, None,
                Some (errors_New
                  (''[ERROR] Unknow data response status ['' @ sprintf_space_x (buf ! 4) @ '']'')))"
  using assms by (simp add: request_decode_001_alt outcome_of_def Let_def)

text \<open>
  Claim C8. A reply whose marker is neither positive nor negative is to be a failure
  that carries the marker. For the marker 58, \<open>request\<close> returns such an error;
  \<open>MakeRequest\<close> of \<open>crt571.go\<close> returns a nil buffer and a nil error.
\<close>

theorem MakeRequest_unknown_marker:
  "fst (MakeRequest 0x31 0x30 []
          (device [[0xF2, 0x00, 0x00, 0x03, 0x58, 0x31, 0x30, 0x03, 0xAB]])) = Ret (None, None)
   \<and> fst (request 0x31 0x30 []
          (device [[0x06, 0xF2, 0x00, 0x00, 0x03, 0x58, 0x31, 0x30, 0x03, 0xAB]])) =
     Ret (Some (zero_CRT571Response\<lparr>DataLen := 3, Type := 0x58\<rparr>),
          Some (errors_New ''[ERROR] Unknow data response status [58]''))"
proof -
  let ?s = "device [[0x06, 0xF2, 0x00, 0x00, 0x03, 0x58, 0x31, 0x30, 0x03, 0xAB]]"
  let ?buf = "[0xF2, 0x00, 0x00, 0x03, 0x58, 0x31, 0x30, 0x03, 0xAB] @ replicate 1014 (0::byte)"
  have m: "fst (MakeRequest 0x31 0x30 []
          (device [[0xF2, 0x00, 0x00, 0x03, 0x58, 0x31, 0x30, 0x03, 0xAB]])) = Ret (None, None)"
    by (simp add: MakeRequest_def MakeRequest_encode_def MakeRequest_frame_def Exchange_def
        port_Write_def port_Read_def device_def index_def BigEndian_PutUint16_def bccCalculate_def
        CRT571_BUFFER_MAX_LENGTH_def crt_consts Let_def)
  have enc: "request_encode (address ?s) 0x31 0x30 [] = Inr (request_frame 0x00 0x31 0x30 [])"
    by (simp only: address_device request_encode_nil)
  have ex: "fst (exchange (request_frame 0x00 0x31 0x30 []) ?s) = Ret (Inr ?buf)"
    by (simp add: exchange_def exchange_receive_def exchange_finish_def device_def port_Write_def
        read_def index_def subslice_def CRT571_BUFFER_MAX_LENGTH_def CRT571_ACK_def Let_def
        log_Print_def)
  have d: "request_decode ?buf =
     Ret (Some (zero_CRT571Response\<lparr>DataLen := 3, Type := 0x58\<rparr>),
          Some (errors_New ''[ERROR] Unknow data response status [58]''))"
    by (simp add: request_decode_def subslice_def index_def BigEndian_Uint16_def crt_consts
        outcome_of_def sprintf_x_def hex_digit_def Let_def)
  from m show ?thesis
    by (simp only: request_decoded [OF enc ex] d)
qed

subsection \<open>The operations offered to the caller\<close>

lemma request_decode_never_nil: "request_decode buf = Ret (res, err) \<Longrightarrow> res \<noteq> None"
  by (auto simp: request_decode_def outcome_of_def Let_def
      split: option.splits bind_splits if_splits)

lemma request_never_nil_nil: "fst (request cm pm data s) \<noteq> Ret (None, None)"
  by (auto simp: request_def split: sum.splits prod.splits outcome.splits
      dest: request_decode_never_nil)

text \<open>\<open>Command\<close> returns what its request returns, result and error.\<close>

lemma Command_passes_on: "fst (Command command pm s) = fst (request command pm [] s)"
proof -
  obtain r s' where rq: "request command pm [] s = (r, s')"
    by (cases "request command pm [] s")
  with request_never_nil_nil [of command pm "[]" s] have "r \<noteq> Ret (None, None)" by simp
  with rq show ?thesis
    by (auto simp: Command_def split: outcome.splits option.splits)
qed

text \<open>\<open>Initialization\<close> and \<open>StatusRequest\<close> return the nil error, whatever the request did.\<close>

lemma Initialization_nil:
  "fst (Initialization pm s) = Panic \<or> fst (Initialization pm s) = Ret None"
  by (auto simp: Initialization_def split: prod.splits outcome.splits)

lemma StatusRequest_nil:
  "fst (StatusRequest pm s) = Panic \<or> fst (StatusRequest pm s) = Ret None"
  by (auto simp: StatusRequest_def split: prod.splits outcome.splits)

lemma exchange_nak:
  "fst (exchange b (device [[0x15]])) = Ret (Inl (errors_New ''ACK is absent''))"
  by (simp add: exchange_def exchange_receive_def device_def port_Write_def read_def index_def
      CRT571_BUFFER_MAX_LENGTH_def CRT571_ACK_def Let_def log_Print_def)

text \<open>
  Claim C9. A failed request is to reach the caller as an error. The device answers the
  frame with the negative acknowledge 15: the request fails with "ACK is absent";
  \<open>Command\<close> returns that error, \<open>Initialization\<close> and \<open>StatusRequest\<close> return nil.
\<close>

theorem Initialization_after_failed_request:
  "fst (request_001 CRT571_CM_INITIALIZE 0x30 [] (device [[0x15]])) =
     Ret (None, None, Some (errors_New ''ACK is absent''))
   \<and> fst (Initialization 0x30 (device [[0x15]])) = Ret None
   \<and> fst (request_001 CRT571_CM_STATUS_REQUEST 0x30 [] (device [[0x15]])) =
     Ret (None, None, Some (errors_New ''ACK is absent''))
   \<and> fst (StatusRequest 0x30 (device [[0x15]])) = Ret None
   \<and> fst (Command CRT571_CM_STATUS_REQUEST 0x30 (device [[0x15]])) =
     Ret (None, Some (errors_New ''ACK is absent''))"
proof -
  have enc: "request_encode (address (device [[0x15]])) cm 0x30 [] =
      Inr (request_frame 0x00 cm 0x30 [])" for cm
    by (simp only: address_device request_encode_nil)
  have r: "fst (request_001 cm 0x30 [] (device [[0x15]])) =
      Ret (None, None, Some (errors_New ''ACK is absent''))" for cm
    by (rule request_001_exchange_error [OF enc exchange_nak])
  have c: "fst (Command cm 0x30 (device [[0x15]])) =
      Ret (None, Some (errors_New ''ACK is absent''))" for cm
    by (simp only: Command_passes_on request_exchange_error [OF enc exchange_nak])
  have i: "fst (Initialization 0x30 (device [[0x15]])) = Ret None"
    using r [of CRT571_CM_INITIALIZE]
    by (auto simp: Initialization_def split: prod.splits outcome.splits)
  have t: "fst (StatusRequest 0x30 (device [[0x15]])) = Ret None"
    using r [of CRT571_CM_STATUS_REQUEST]
    by (auto simp: StatusRequest_def split: prod.splits outcome.splits)
  from r c i t show ?thesis by simp
qed

end
